theory Spec2Isabelle
  imports Complex_Main "HOL-Library.Sublist"
begin

section \<open>JavaScript values\<close>


datatype json =
    JNull
  | JBool bool
  | JNum rat
  | JStr string
  | JArr "json list"
  | JObj "(string \<times> json) list"

definition is_space :: "char \<Rightarrow> bool" where
  "is_space c = ((of_char c :: nat) \<in> {9, 10, 11, 12, 13, 32})"

definition is_digit :: "char \<Rightarrow> bool" where
  "is_digit c = (48 \<le> (of_char c :: nat) \<and> (of_char c :: nat) \<le> 57)"

definition digit_value :: "char \<Rightarrow> nat" where
  "digit_value c = of_char c - 48"

definition digits_value :: "string \<Rightarrow> nat" where
  "digits_value ds = foldl (\<lambda>a c. 10 * a + digit_value c) 0 ds"

text \<open>
  \<^verbatim>\<open>parseInt(s, 10)\<close>: leading white space is skipped, one sign is read, then the longest
  run of decimal digits; with no digit the result is \<^verbatim>\<open>NaN\<close>, here \<open>None\<close>. Whatever
  follows the digits is ignored.
\<close>

definition parseInt :: "string \<Rightarrow> int option" where
  "parseInt input =
     (let s = dropWhile is_space input;
          neg = (case s of [] \<Rightarrow> False | c # _ \<Rightarrow> c = CHR ''-'');
          body = (case s of [] \<Rightarrow> s | c # r \<Rightarrow> if c = CHR ''+'' \<or> c = CHR ''-'' then r else s);
          z = takeWhile is_digit body
      in if z = [] then None
         else Some ((if neg then - 1 else 1) * int (digits_value z)))"

text \<open>
  A query parameter is a string, or absent (a parameter given twice, which Express turns
  into an array, is not modelled). \<^verbatim>\<open>parseInt(undefined, 10)\<close> reads the string
  \<^verbatim>\<open>"undefined"\<close>; a destructuring default replaces an absent parameter before that.
\<close>

definition param_text :: "string option \<Rightarrow> string" where
  "param_text p = (case p of None \<Rightarrow> ''undefined'' | Some s \<Rightarrow> s)"


section \<open>The record store\<close>

text \<open>
  A stored document of the \<^verbatim>\<open>Transaction\<close> model. An optional field is absent or null
  when it is \<open>None\<close>. The schema has no \<^verbatim>\<open>sold\<close> path; the statistics route reads one, so
  the document carries it as an optional field.
\<close>

record txn =
  transactionId :: "string option"
  productId :: "string option"
  userId :: "string option"
  amount :: "rat option"
  date :: "int option"
  title :: string
  description :: string
  price :: rat
  category :: string
  sold :: "bool option"

text \<open>Each call of a method of the model is logged, in order, next to the collection.\<close>

datatype store_call =
    Delete_many
  | Insert_many
  | Find_docs
  | Count_documents
  | Aggregate

record db =
  collection :: "txn list"
  calls :: "store_call list"

record page_body =
  transactions :: "txn list"
  totalCount :: nat
  totalPages :: "int option"
  currentPage :: int
  perPage :: int

record stats_body =
  totalSaleAmount :: rat
  totalSoldItems :: nat
  totalNotSoldItems :: nat

text \<open>
  The responses of the five routes. A \<^verbatim>\<open>{range, count}\<close> and a \<^verbatim>\<open>{category, count}\<close>
  entry is a pair. \<open>totalPages\<close> is \<open>None\<close> where the JSON body holds \<^verbatim>\<open>null\<close>, which is
  how a non-finite number is serialised. A 500 carries the fixed message of its route; the
  text of the error that \<^verbatim>\<open>/transactions\<close> appends to it is left out.
\<close>

datatype response =
    Ok_message string
  | Ok_page page_body
  | Ok_statistics stats_body
  | Ok_ranges "(string \<times> nat) list"
  | Ok_categories "(string \<times> nat) list"
  | Bad_request string
  | Server_error string

fun status :: "response \<Rightarrow> nat" where
  "status (Bad_request _) = 400"
| "status (Server_error _) = 500"
| "status _ = 200"

text \<open>
  What the libraries decide outside the part written out below is a parameter of the
  model: the time zone of the server (\<open>local_to_utc\<close> turns a local time value into UTC),
  the year of the clock, \<^verbatim>\<open>Date.parse\<close> on strings, \<^verbatim>\<open>new Date\<close> on an array or object,
  the casts of Mongoose on a value of another type than the schema's, the regular
  expressions of the store beyond literals and the dot, paging with a negative skip or a
  limit below one, and the time value that the driver sends for an invalid Date in an
  aggregation (\<open>None\<close> where it rejects the call).
\<close>

record runtime =
  local_to_utc :: "int \<Rightarrow> int"
  current_year :: int
  date_parse :: "string \<Rightarrow> int option"
  date_of_compound :: "json \<Rightarrow> int option"
  cast_string_other :: "json \<Rightarrow> string option"
  cast_number_other :: "json \<Rightarrow> rat option"
  regex_other :: "string \<Rightarrow> (string \<Rightarrow> bool) option"
  paging_other :: "txn list \<Rightarrow> int \<Rightarrow> int \<Rightarrow> txn list option"
  invalid_date_wire :: "int option"

section \<open>GET /initialize\<close>

fun is_array :: "json \<Rightarrow> bool" where
  "is_array (JArr _) = True"
| "is_array _ = False"

fun truthy :: "json \<Rightarrow> bool" where
  "truthy JNull = False"
| "truthy (JBool b) = b"
| "truthy (JNum x) = (x \<noteq> 0)"
| "truthy (JStr s) = (s \<noteq> [])"
| "truthy (JArr _) = True"
| "truthy (JObj _) = True"

text \<open>\<^verbatim>\<open>a || b\<close>, where \<open>None\<close> is \<^verbatim>\<open>undefined\<close>.\<close>

definition js_or :: "json option \<Rightarrow> json \<Rightarrow> json" where
  "js_or a b = (case a of None \<Rightarrow> b | Some v \<Rightarrow> if truthy v then v else b)"

text \<open>
  \<^verbatim>\<open>item.name\<close> for the nine names the route reads: the own property of an object (the
  last one, where \<^verbatim>\<open>JSON.parse\<close> met the key twice), \<^verbatim>\<open>undefined\<close> on a number, string,
  boolean or array. On \<^verbatim>\<open>null\<close> the access throws, which \<open>map_item\<close> handles.
\<close>

fun property :: "json \<Rightarrow> string \<Rightarrow> json option" where
  "property (JObj kvs) k = map_of (rev kvs) k"
| "property _ k = None"

definition time_clip :: "rat \<Rightarrow> int option" where
  "time_clip x =
     (if \<bar>x\<bar> \<le> 8640000000000000
      then Some (if 0 \<le> x then \<lfloor>x\<rfloor> else \<lceil>x\<rceil>)
      else None)"

text \<open>
  \<^verbatim>\<open>parseDate\<close>: the time value of \<^verbatim>\<open>new Date(dateString)\<close> in milliseconds since the
  epoch, or \<open>None\<close> for the \<^verbatim>\<open>null\<close> it returns on an invalid Date. \<^verbatim>\<open>new Date(undefined)\<close>
  is invalid; \<^verbatim>\<open>null\<close>, a boolean and a number are converted to a number and clipped.
\<close>

definition parseDate :: "runtime \<Rightarrow> json option \<Rightarrow> int option" where
  "parseDate rt v =
     (case v of
        None \<Rightarrow> None
      | Some JNull \<Rightarrow> Some 0
      | Some (JBool b) \<Rightarrow> Some (if b then 1 else 0)
      | Some (JNum x) \<Rightarrow> time_clip x
      | Some (JStr s) \<Rightarrow> date_parse rt s
      | Some (JArr xs) \<Rightarrow> date_of_compound rt (JArr xs)
      | Some (JObj kvs) \<Rightarrow> date_of_compound rt (JObj kvs))"

text \<open>The object literal that \<^verbatim>\<open>data.map\<close> builds of one item, before Mongoose casts it.\<close>

record plain_txn =
  raw_transactionId :: "json option"
  raw_productId :: "json option"
  raw_userId :: "json option"
  raw_amount :: "json option"
  raw_date :: "int option"
  raw_title :: json
  raw_description :: json
  raw_price :: json
  raw_category :: json

definition map_item :: "runtime \<Rightarrow> json \<Rightarrow> plain_txn option" where
  "map_item rt item =
     (if item = JNull then None
      else Some \<lparr>
        raw_transactionId = property item ''transaction_id'',
        raw_productId = property item ''product_id'',
        raw_userId = property item ''user_id'',
        raw_amount = property item ''amount'',
        raw_date = parseDate rt (property item ''date''),
        raw_title = js_or (property item ''title'') (JStr ''''),
        raw_description = js_or (property item ''description'') (JStr ''''),
        raw_price = js_or (property item ''price'') (JNum 0),
        raw_category = js_or (property item ''category'') (JStr '''') \<rparr>)"

text \<open>
  The casts of \<^verbatim>\<open>insertMany\<close>: a value of the type of its path is stored as it is,
  \<^verbatim>\<open>undefined\<close> and \<^verbatim>\<open>null\<close> leave an optional path empty, and any other value is cast by
  the library (\<open>None\<close> is a cast error).
\<close>

definition cast_string :: "runtime \<Rightarrow> json \<Rightarrow> string option" where
  "cast_string rt v = (case v of JStr s \<Rightarrow> Some s | _ \<Rightarrow> cast_string_other rt v)"

definition cast_number :: "runtime \<Rightarrow> json \<Rightarrow> rat option" where
  "cast_number rt v = (case v of JNum x \<Rightarrow> Some x | _ \<Rightarrow> cast_number_other rt v)"

definition cast_optional :: "(json \<Rightarrow> 'a option) \<Rightarrow> json option \<Rightarrow> 'a option option" where
  "cast_optional cast v =
     (case v of
        None \<Rightarrow> Some None
      | Some JNull \<Rightarrow> Some None
      | Some w \<Rightarrow> map_option Some (cast w))"

definition cast_txn :: "runtime \<Rightarrow> plain_txn \<Rightarrow> txn option" where
  "cast_txn rt p =
     (case (cast_optional (cast_string rt) (raw_transactionId p),
            cast_optional (cast_string rt) (raw_productId p),
            cast_optional (cast_string rt) (raw_userId p),
            cast_optional (cast_number rt) (raw_amount p),
            cast_string rt (raw_title p),
            cast_string rt (raw_description p),
            cast_number rt (raw_price p),
            cast_string rt (raw_category p)) of
        (Some tid, Some pid, Some uid, Some am, Some tt, Some de, Some pr, Some ca) \<Rightarrow>
          Some \<lparr> transactionId = tid, productId = pid, userId = uid, amount = am,
                 date = raw_date p, title = tt, description = de, price = pr,
                 category = ca, sold = None \<rparr>
      | _ \<Rightarrow> None)"

definition log_call :: "store_call \<Rightarrow> db \<Rightarrow> db" where
  "log_call c d = d\<lparr>calls := calls d @ [c]\<rparr>"

definition deleteMany :: "db \<Rightarrow> db" where
  "deleteMany d = log_call Delete_many (d\<lparr>collection := []\<rparr>)"

text \<open>
  \<^verbatim>\<open>insertMany\<close> validates every document before it writes one: a cast error rejects the
  call and nothing is inserted.
\<close>

definition insertMany :: "runtime \<Rightarrow> plain_txn list \<Rightarrow> db \<Rightarrow> bool \<times> db" where
  "insertMany rt docs d =
     (case those (map (cast_txn rt) docs) of
        None \<Rightarrow> (False, log_call Insert_many d)
      | Some ts \<Rightarrow> (True, log_call Insert_many (d\<lparr>collection := collection d @ ts\<rparr>)))"

datatype fetched = Fetch_failed | Fetched json

definition get_initialize :: "runtime \<Rightarrow> fetched \<Rightarrow> db \<Rightarrow> response \<times> db" where
  "get_initialize rt upstream d =
     (case upstream of
        Fetch_failed \<Rightarrow> (Server_error ''Failed to initialize database'', d)
      | Fetched data \<Rightarrow>
          (case data of
             JArr items \<Rightarrow>
               (let d1 = deleteMany d
                in case those (map (map_item rt) items) of
                     None \<Rightarrow> (Server_error ''Failed to initialize database'', d1)
                   | Some mapped \<Rightarrow>
                       (let txns = filter (\<lambda>t. raw_date t \<noteq> None) mapped
                        in case insertMany rt txns d1 of
                             (False, d2) \<Rightarrow> (Server_error ''Failed to initialize database'', d2)
                           | (True, d2) \<Rightarrow>
                               (Ok_message ''Database initialized successfully'', d2)))
           | _ \<Rightarrow> (Bad_request ''Invalid data format'', d)))"

section \<open>Dates\<close>

text \<open>
  \<^verbatim>\<open>new Date(year, monthIndex, day)\<close>, after the language standard: a year from 0 to 99
  stands for 1900 + year, a month index outside 0..11 carries into the year, the day number
  counts from the epoch in the proleptic Gregorian calendar, the time is local, and a time
  value beyond 8.64e15 ms makes the Date invalid (\<open>None\<close>).
\<close>

definition day_from_year :: "int \<Rightarrow> int" where
  "day_from_year y =
     365 * (y - 1970) + (y - 1969) div 4 - (y - 1901) div 100 + (y - 1601) div 400"

definition in_leap_year :: "int \<Rightarrow> bool" where
  "in_leap_year y = (y mod 4 = 0 \<and> (y mod 100 \<noteq> 0 \<or> y mod 400 = 0))"

definition month_start_day :: "int \<Rightarrow> bool \<Rightarrow> int" where
  "month_start_day mn leap =
     [0, 31, 59, 90, 120, 151, 181, 212, 243, 273, 304, 334] ! nat mn
       + (if leap \<and> 2 \<le> mn then 1 else 0)"

definition make_day :: "int \<Rightarrow> int \<Rightarrow> int \<Rightarrow> int" where
  "make_day y m dt =
     (let ym = y + m div 12; mn = m mod 12
      in day_from_year ym + month_start_day mn (in_leap_year ym) + dt - 1)"

definition ms_per_day :: int where
  "ms_per_day = 86400000"

definition new_date :: "runtime \<Rightarrow> int \<Rightarrow> int \<Rightarrow> int \<Rightarrow> int option" where
  "new_date rt y m dt =
     (let yr = (if 0 \<le> y \<and> y \<le> 99 then 1900 + y else y)
      in time_clip (of_int (local_to_utc rt (make_day yr m dt * ms_per_day))))"

text \<open>The filter \<^verbatim>\<open>date: { $gte: startDate, $lt: endDate }\<close>; a document without a date
  does not match.\<close>

definition wire_date :: "runtime \<Rightarrow> int option \<Rightarrow> int option" where
  "wire_date rt t = (case t of Some x \<Rightarrow> Some x | None \<Rightarrow> invalid_date_wire rt)"

definition in_window :: "int \<Rightarrow> int \<Rightarrow> txn \<Rightarrow> bool" where
  "in_window startDate endDate t =
     (case date t of None \<Rightarrow> False | Some x \<Rightarrow> startDate \<le> x \<and> x < endDate)"

section \<open>GET /transactions\<close>























section \<open>GET /statistics\<close>

text \<open>
  The three facets over the matched documents. \<^verbatim>\<open>$group\<close> with \<^verbatim>\<open>_id: null\<close> gives one
  document when there is any input and none otherwise, and \<^verbatim>\<open>$sum\<close> skips a document
  without a numeric amount; \<^verbatim>\<open>$count\<close> gives no document on no input. The route then
  reads \<^verbatim>\<open>facet[0]?.field || 0\<close>.
\<close>

definition amount_value :: "txn \<Rightarrow> rat" where
  "amount_value t = (case amount t of None \<Rightarrow> 0 | Some a \<Rightarrow> a)"

definition group_total :: "txn list \<Rightarrow> rat list" where
  "group_total ts = (if ts = [] then [] else [sum_list (map amount_value ts)])"

definition count_stage :: "txn list \<Rightarrow> nat list" where
  "count_stage ts = (if ts = [] then [] else [length ts])"

definition first_or_zero :: "'a::zero list \<Rightarrow> 'a" where
  "first_or_zero xs = (case xs of [] \<Rightarrow> 0 | x # _ \<Rightarrow> if x = 0 then 0 else x)"

record stats_query =
  q_month :: "string option"
  q_year :: "string option"

definition get_statistics :: "runtime \<Rightarrow> stats_query \<Rightarrow> db \<Rightarrow> response \<times> db" where
  "get_statistics rt q d =
     (case (parseInt (param_text (q_month q)), parseInt (param_text (q_year q))) of
        (Some monthNumber, Some yearNumber) \<Rightarrow>
          if monthNumber < 1 \<or> monthNumber > 12
          then (Bad_request ''Invalid month or year'', d)
          else
            (let d1 = log_call Aggregate d
             in case (wire_date rt (new_date rt yearNumber (monthNumber - 1) 1),
                      wire_date rt (new_date rt yearNumber monthNumber 1)) of
                  (Some startDate, Some endDate) \<Rightarrow>
                    (let matched = filter (in_window startDate endDate) (collection d);
                         facet_total = group_total matched;
                         facet_sold = count_stage (filter (\<lambda>t. sold t = Some True) matched);
                         facet_not_sold = count_stage (filter (\<lambda>t. sold t = Some False) matched)
                     in (Ok_statistics \<lparr> totalSaleAmount = first_or_zero facet_total,
                                          totalSoldItems = first_or_zero facet_sold,
                                          totalNotSoldItems = first_or_zero facet_not_sold \<rparr>,
                         d1))
                | _ \<Rightarrow> (Server_error ''Failed to fetch statistics'', d1))
      | _ \<Rightarrow> (Bad_request ''Invalid month or year'', d))"

section \<open>GET /price-range\<close>

datatype bound = Finite int | Infinity

definition priceRanges :: "(int \<times> bound) list" where
  "priceRanges =
     [(0, Finite 100), (101, Finite 200), (201, Finite 300), (301, Finite 400),
      (401, Finite 500), (501, Finite 600), (601, Finite 700), (701, Finite 800),
      (801, Finite 900), (901, Infinity)]"

fun below :: "rat \<Rightarrow> bound \<Rightarrow> bool" where
  "below x (Finite m) = (x \<le> of_int m)"
| "below x Infinity = True"

text \<open>The filter \<^verbatim>\<open>price: { $gte: range.min, $lte: range.max }\<close>. Mongoose casts the
  filter of \<^verbatim>\<open>countDocuments\<close>, and the cast of an invalid Date fails.\<close>

definition in_range :: "int \<times> bound \<Rightarrow> txn \<Rightarrow> bool" where
  "in_range r t = (of_int (fst r) \<le> price t \<and> below (price t) (snd r))"

function show_nat :: "nat \<Rightarrow> string" where
  "show_nat n =
     (if n < 10 then [''0123456789'' ! n]
      else show_nat (n div 10) @ [''0123456789'' ! (n mod 10)])"
  by pat_completeness auto
termination
  by (relation "measure id") auto

definition show_int :: "int \<Rightarrow> string" where
  "show_int i = (if i < 0 then CHR ''-'' # show_nat (nat (- i)) else show_nat (nat i))"

fun show_bound :: "bound \<Rightarrow> string" where
  "show_bound (Finite m) = show_int m"
| "show_bound Infinity = ''Infinity''"

text \<open>The template string \<^verbatim>\<open>`${range.min} - ${range.max}`\<close>.\<close>

definition range_label :: "int \<times> bound \<Rightarrow> string" where
  "range_label r = show_int (fst r) @ '' - '' @ show_bound (snd r)"

definition get_price_range :: "runtime \<Rightarrow> string option \<Rightarrow> db \<Rightarrow> response \<times> db" where
  "get_price_range rt month d =
     (case parseInt (param_text month) of
        None \<Rightarrow> (Bad_request ''Invalid month'', d)
      | Some monthNumber \<Rightarrow>
          if monthNumber < 1 \<or> monthNumber > 12 then (Bad_request ''Invalid month'', d)
          else
            (let d1 = d\<lparr>calls := calls d @ map (\<lambda>r. Count_documents) priceRanges\<rparr>
             in case (new_date rt (current_year rt) (monthNumber - 1) 1,
                      new_date rt (current_year rt) monthNumber 1) of
                  (Some startDate, Some endDate) \<Rightarrow>
                    (Ok_ranges
                       (map (\<lambda>r. (range_label r,
                                   length (filter (\<lambda>t. in_window startDate endDate t \<and> in_range r t)
                                             (collection d))))
                          priceRanges),
                     d1)
                | _ \<Rightarrow> (Server_error ''Failed to fetch price range data'', d1)))"

section \<open>GET /category-stats\<close>

text \<open>
  \<^verbatim>\<open>$group\<close> by \<^verbatim>\<open>$category\<close> with \<^verbatim>\<open>count: { $sum: 1 }\<close>: the stage keeps one
  accumulator for each key it has met. The store promises no order of the groups; here
  they come in the order in which their keys first occur.
\<close>

fun bump :: "string \<Rightarrow> (string \<times> nat) list \<Rightarrow> (string \<times> nat) list" where
  "bump c [] = [(c, 1)]"
| "bump c ((k, n) # rest) = (if k = c then (k, n + 1) # rest else (k, n) # bump c rest)"

definition group_by_category :: "txn list \<Rightarrow> (string \<times> nat) list" where
  "group_by_category ts = foldl (\<lambda>acc t. bump (category t) acc) [] ts"

definition get_category_stats :: "runtime \<Rightarrow> string option \<Rightarrow> db \<Rightarrow> response \<times> db" where
  "get_category_stats rt month d =
     (case parseInt (param_text month) of
        None \<Rightarrow> (Bad_request ''Invalid month'', d)
      | Some monthNumber \<Rightarrow>
          if monthNumber < 1 \<or> monthNumber > 12 then (Bad_request ''Invalid month'', d)
          else
            (let d1 = log_call Aggregate d
             in case (wire_date rt (new_date rt (current_year rt) (monthNumber - 1) 1),
                      wire_date rt (new_date rt (current_year rt) monthNumber 1)) of
                  (Some startDate, Some endDate) \<Rightarrow>
                    (Ok_categories
                       (group_by_category
                          (filter (in_window startDate endDate) (collection d))),
                     d1)
                | _ \<Rightarrow> (Server_error ''Failed to fetch category stats'', d1)))"

section \<open>The properties, in the words of the specification\<close>

text \<open>
  The first instant of month \<open>m\<close> (1 to 12) of year \<open>y\<close> in the time of the server, and the
  first instant of the month after it; a document is in the month when its date is at or
  after the one and before the other.
\<close>

definition first_instant :: "runtime \<Rightarrow> int \<Rightarrow> int \<Rightarrow> int" where
  "first_instant rt y m =
     local_to_utc rt ((day_from_year y + month_start_day (m - 1) (in_leap_year y)) * ms_per_day)"

definition next_first_instant :: "runtime \<Rightarrow> int \<Rightarrow> int \<Rightarrow> int" where
  "next_first_instant rt y m =
     (if m = 12 then first_instant rt (y + 1) 1 else first_instant rt y (m + 1))"

definition valid_time :: "int \<Rightarrow> bool" where
  "valid_time t = (\<bar>t\<bar> \<le> 8640000000000000)"

definition in_month :: "runtime \<Rightarrow> int \<Rightarrow> int \<Rightarrow> txn \<Rightarrow> bool" where
  "in_month rt y m t =
     (case date t of
        None \<Rightarrow> False
      | Some x \<Rightarrow> first_instant rt y m \<le> x \<and> x < next_first_instant rt y m)"


text \<open>A price lies in one of the ten bands.\<close>

definition banded :: "rat \<Rightarrow> bool" where
  "banded p =
     (0 \<le> p \<and> p \<le> 100 \<or> 101 \<le> p \<and> p \<le> 200 \<or> 201 \<le> p \<and> p \<le> 300 \<or>
      301 \<le> p \<and> p \<le> 400 \<or> 401 \<le> p \<and> p \<le> 500 \<or> 501 \<le> p \<and> p \<le> 600 \<or>
      601 \<le> p \<and> p \<le> 700 \<or> 701 \<le> p \<and> p \<le> 800 \<or> 801 \<le> p \<and> p \<le> 900 \<or> 901 \<le> p)"

text \<open>The number of documents of month \<open>m\<close> of year \<open>y\<close> with a price from \<open>lo\<close> to \<open>hi\<close>,
  and with a price from \<open>lo\<close> on.\<close>

definition band_count :: "runtime \<Rightarrow> int \<Rightarrow> int \<Rightarrow> rat \<Rightarrow> rat \<Rightarrow> db \<Rightarrow> nat" where
  "band_count rt y m lo hi d =
     length (filter (\<lambda>t. in_month rt y m t \<and> lo \<le> price t \<and> price t \<le> hi) (collection d))"

definition open_band_count :: "runtime \<Rightarrow> int \<Rightarrow> int \<Rightarrow> rat \<Rightarrow> db \<Rightarrow> nat" where
  "open_band_count rt y m lo d =
     length (filter (\<lambda>t. in_month rt y m t \<and> lo \<le> price t) (collection d))"

text \<open>
  An upstream record has a parseable date when \<^verbatim>\<open>parseDate\<close> does not answer \<^verbatim>\<open>null\<close> on
  its \<^verbatim>\<open>date\<close>. Its normalized record has the parsed date, the identifiers and the amount
  of the source, the text fields and the price of the source or their defaults, and no
  \<^verbatim>\<open>sold\<close> field.
\<close>

definition parseable :: "runtime \<Rightarrow> json \<Rightarrow> bool" where
  "parseable rt item = (parseDate rt (property item ''date'') \<noteq> None)"

definition text_of :: "json option \<Rightarrow> string \<Rightarrow> bool" where
  "text_of v s = ((v = None \<longrightarrow> s = []) \<and> (\<forall>x. v = Some (JStr x) \<longrightarrow> s = x))"

definition id_of :: "json option \<Rightarrow> string option \<Rightarrow> bool" where
  "id_of v s = ((v = None \<longrightarrow> s = None) \<and> (\<forall>x. v = Some (JStr x) \<longrightarrow> s = Some x))"

definition normalized :: "runtime \<Rightarrow> json \<Rightarrow> txn \<Rightarrow> bool" where
  "normalized rt item t =
     (date t = parseDate rt (property item ''date'') \<and>
      id_of (property item ''transaction_id'') (transactionId t) \<and>
      id_of (property item ''product_id'') (productId t) \<and>
      id_of (property item ''user_id'') (userId t) \<and>
      (property item ''amount'' = None \<longrightarrow> amount t = None) \<and>
      (\<forall>x. property item ''amount'' = Some (JNum x) \<longrightarrow> amount t = Some x) \<and>
      text_of (property item ''title'') (title t) \<and>
      text_of (property item ''description'') (description t) \<and>
      text_of (property item ''category'') (category t) \<and>
      (property item ''price'' = None \<longrightarrow> price t = 0) \<and>
      (\<forall>x. property item ''price'' = Some (JNum x) \<longrightarrow> price t = x) \<and>
      sold t = None)"

text \<open>
  A store populated by the Ingestor alone: it starts empty, \<^verbatim>\<open>/initialize\<close> is the only
  route that writes, and the other routes leave the collection as it is.
\<close>

inductive populated :: "runtime \<Rightarrow> db \<Rightarrow> bool" for rt :: runtime where
  fresh: "collection d = [] \<Longrightarrow> populated rt d"
| ingest: "populated rt d \<Longrightarrow> populated rt (snd (get_initialize rt upstream d))"
| reads: "populated rt d \<Longrightarrow> collection d' = collection d \<Longrightarrow> populated rt d'"

text \<open>The number of documents of a category.\<close>

definition category_count :: "string \<Rightarrow> txn list \<Rightarrow> nat" where
  "category_count c ts = length (filter (\<lambda>t. category t = c) ts)"


section \<open>A sample runtime and sample data\<close>

text \<open>
  A server in UTC in the year 2024, whose \<^verbatim>\<open>Date.parse\<close> knows one ISO string and whose
  libraries reject whatever the model leaves to them.
\<close>

definition utc_runtime :: runtime where
  "utc_runtime =
     \<lparr> local_to_utc = (\<lambda>t. t),
       current_year = 2024,
       date_parse = (\<lambda>s. if s = ''2024-05-15T00:00:00Z'' then Some 1715731200000 else None),
       date_of_compound = (\<lambda>v. None),
       cast_string_other = (\<lambda>v. None),
       cast_number_other = (\<lambda>v. None),
       regex_other = (\<lambda>p. None),
       paging_other = (\<lambda>ms s l. None),
       invalid_date_wire = None \<rparr>"

definition doc :: "string \<Rightarrow> string \<Rightarrow> rat \<Rightarrow> int \<Rightarrow> rat \<Rightarrow> txn" where
  "doc ttl cat pr dt am =
     \<lparr> transactionId = None, productId = None, userId = None, amount = Some am,
       date = Some dt, title = ttl, description = [], price = pr, category = cat,
       sold = None \<rparr>"

definition store_of :: "txn list \<Rightarrow> db" where
  "store_of ts = \<lparr> collection = ts, calls = [] \<rparr>"



definition may_2024 :: db where
  "may_2024 = store_of [doc ''lamp'' ''home'' (201 / 2) 1715731200000 5]"

definition may_2024_whole :: db where
  "may_2024_whole =
     store_of [doc ''lamp'' ''home'' 100 1715731200000 5, doc ''desk'' ''home'' 101 1715731200000 5,
               doc ''sofa'' ''home'' 1200 1715731200000 5, doc ''rug'' ''home'' 50 1704067200000 5]"

definition may_2024_mixed :: db where
  "may_2024_mixed =
     store_of [doc ''lamp'' ''home'' 100 1715731200000 5, doc ''pen'' [] 2 1715731200000 5,
               doc ''sofa'' ''home'' 1200 1715731200000 5, doc ''rug'' ''home'' 50 1704067200000 5]"


text \<open>An upstream array of three records, one of which has a date that parses, and the
  document stored for it.\<close>

definition sample_items :: "json list" where
  "sample_items =
     [JObj [(''transaction_id'', JStr ''t1''), (''amount'', JNum 12),
            (''date'', JStr ''2024-05-15T00:00:00Z''), (''title'', JStr ''Lamp''),
            (''price'', JNum 30)],
      JObj [(''title'', JStr ''No date'')],
      JObj [(''date'', JStr ''soon''), (''amount'', JNum 3)]]"

definition sample_stored :: txn where
  "sample_stored =
     \<lparr> transactionId = Some ''t1'', productId = None, userId = None, amount = Some 12,
       date = Some 1715731200000, title = ''Lamp'', description = [], price = 30,
       category = [], sold = None \<rparr>"

section \<open>Facts for evaluation\<close>

lemmas char_eval = is_space_def is_digit_def digit_value_def digits_value_def

lemmas date_eval =
  day_from_year_def in_leap_year_def month_start_day_def ms_per_day_def valid_time_def
  first_instant_def next_first_instant_def utc_runtime_def

section \<open>GET /initialize: a payload that is not an array\<close>

text \<open>
  C2. If the upstream source returns a JSON payload that is not an array, \<^verbatim>\<open>/initialize\<close>
  responds with status 400 and leaves the store as it was: the collection is unchanged and
  no call is logged, so neither the delete-all nor the bulk insert has run.
\<close>

theorem initialize_non_array:
  "\<not> is_array data \<Longrightarrow>
     get_initialize rt (Fetched data) d = (Bad_request ''Invalid data format'', d)
     \<and> status (fst (get_initialize rt (Fetched data) d)) = 400"
  by (cases data) (simp_all add: get_initialize_def)

theorem initialize_non_array_witness:
  "\<not> is_array (JObj [(''items'', JArr [])])
   \<and> get_initialize utc_runtime (Fetched (JObj [(''items'', JArr [])]))
        (store_of [doc ''a'' ''b'' 1 0 2])
      = (Bad_request ''Invalid data format'', store_of [doc ''a'' ''b'' 1 0 2])"
  using initialize_non_array
    [of "JObj [(''items'', JArr [])]" utc_runtime "store_of [doc ''a'' ''b'' 1 0 2]"]
  by simp

section \<open>Validation of the query parameters\<close>





section \<open>The month window\<close>

text \<open>For a year outside 0 to 99 and bounds that are valid Dates, the two Dates that the
  routes build are the first instant of the month and of the month after it.\<close>

lemma time_clip_int:
  assumes "valid_time t"
  shows "time_clip (of_int t) = Some t"
proof -
  have "(of_int \<bar>t\<bar> :: rat) \<le> of_int 8640000000000000"
    using assms unfolding valid_time_def by (simp only: of_int_le_iff)
  then have "\<bar>of_int t :: rat\<bar> \<le> 8640000000000000"
    by simp
  then show ?thesis
    by (simp add: time_clip_def)
qed

lemma new_date_start:
  assumes "1 \<le> m" "m \<le> 12" "y < 0 \<or> 99 < y" "valid_time (first_instant rt y m)"
  shows "new_date rt y (m - 1) 1 = Some (first_instant rt y m)"
proof -
  from assms(1,2) have "(m - 1) div 12 = 0" "(m - 1) mod 12 = m - 1" by simp_all
  then have "make_day y (m - 1) 1 = day_from_year y + month_start_day (m - 1) (in_leap_year y)"
    by (simp add: make_day_def Let_def)
  with assms(3,4) show ?thesis
    by (auto simp: new_date_def first_instant_def time_clip_int)
qed

lemma new_date_end:
  assumes "1 \<le> m" "m \<le> 12" "y < 0 \<or> 99 < y" "valid_time (next_first_instant rt y m)"
  shows "new_date rt y m 1 = Some (next_first_instant rt y m)"
proof (cases "m = 12")
  case True
  then have "make_day y m 1 = day_from_year (y + 1) + month_start_day 0 (in_leap_year (y + 1))"
    by (simp add: make_day_def Let_def)
  with True assms(3,4) show ?thesis
    by (auto simp: new_date_def next_first_instant_def first_instant_def time_clip_int)
next
  case False
  with assms(1,2) have "m div 12 = 0" "m mod 12 = m" by simp_all
  then have "make_day y m 1 = day_from_year y + month_start_day m (in_leap_year y)"
    by (simp add: make_day_def Let_def)
  with False assms(3,4) show ?thesis
    by (auto simp: new_date_def next_first_instant_def first_instant_def time_clip_int)
qed

lemma in_window_month:
  "in_window (first_instant rt y m) (next_first_instant rt y m) = in_month rt y m"
  by (rule ext) (simp add: in_window_def in_month_def)


lemma first_or_zero_count: "first_or_zero (count_stage ts) = length ts"
  by (simp add: first_or_zero_def count_stage_def)

section \<open>GET /statistics over a month\<close>




section \<open>GET /price-range: the ten bands\<close>

lemma range_labels:
  "map range_label priceRanges =
     [''0 - 100'', ''101 - 200'', ''201 - 300'', ''301 - 400'', ''401 - 500'',
      ''501 - 600'', ''601 - 700'', ''701 - 800'', ''801 - 900'', ''901 - Infinity'']"
  by (simp add: priceRanges_def range_label_def show_int_def)

lemma banded_whole: "p \<in> \<int> \<Longrightarrow> banded p \<longleftrightarrow> 0 \<le> p"
proof -
  assume "p \<in> \<int>"
  then obtain k where k: "p = of_int k" by (rule Ints_cases)
  have "banded (of_int k) \<longleftrightarrow> 0 \<le> k"
    unfolding banded_def by (simp) arith
  with k show ?thesis by simp
qed

lemma band_sum_list:
  "length (filter (\<lambda>t. W t \<and> 0 \<le> price t \<and> price t \<le> 100) xs)
     + length (filter (\<lambda>t. W t \<and> 101 \<le> price t \<and> price t \<le> 200) xs)
     + length (filter (\<lambda>t. W t \<and> 201 \<le> price t \<and> price t \<le> 300) xs)
     + length (filter (\<lambda>t. W t \<and> 301 \<le> price t \<and> price t \<le> 400) xs)
     + length (filter (\<lambda>t. W t \<and> 401 \<le> price t \<and> price t \<le> 500) xs)
     + length (filter (\<lambda>t. W t \<and> 501 \<le> price t \<and> price t \<le> 600) xs)
     + length (filter (\<lambda>t. W t \<and> 601 \<le> price t \<and> price t \<le> 700) xs)
     + length (filter (\<lambda>t. W t \<and> 701 \<le> price t \<and> price t \<le> 800) xs)
     + length (filter (\<lambda>t. W t \<and> 801 \<le> price t \<and> price t \<le> 900) xs)
     + length (filter (\<lambda>t. W t \<and> 901 \<le> price t) xs)
   = length (filter (\<lambda>t. W t \<and> banded (price t)) xs)"
  by (induction xs) (auto simp: banded_def)


lemma map_pair_zip: "map (\<lambda>r. (f r, g r)) xs = zip (map f xs) (map g xs)"
  by (induction xs) simp_all

text \<open>
  C1, as amended. For a month from 1 to 12 (the year of the clock being outside 0 to 99 and
  the bounds of the month valid Dates) the response holds exactly ten entries, in the
  order of the bands 0 to 100, 101 to 200, up to 801 to 900 and 901 on, each counting the
  documents of the month whose price lies in the band, both ends included. The sum of the
  ten counts is the number of documents of the month whose price lies in one of the bands;
  when every price is a whole number, that is the number of documents of the month with a
  price of 0 or more.
\<close>

theorem price_range_bands:
  assumes "parseInt (param_text month) = Some m" and "1 \<le> m" and "m \<le> 12"
    and "current_year rt = y" and "y < 0 \<or> 99 < y"
    and "valid_time (first_instant rt y m)" and "valid_time (next_first_instant rt y m)"
  shows "\<exists>ranges.
           fst (get_price_range rt month d) = Ok_ranges ranges
         \<and> ranges =
             [(''0 - 100'', band_count rt y m 0 100 d),
              (''101 - 200'', band_count rt y m 101 200 d),
              (''201 - 300'', band_count rt y m 201 300 d),
              (''301 - 400'', band_count rt y m 301 400 d),
              (''401 - 500'', band_count rt y m 401 500 d),
              (''501 - 600'', band_count rt y m 501 600 d),
              (''601 - 700'', band_count rt y m 601 700 d),
              (''701 - 800'', band_count rt y m 701 800 d),
              (''801 - 900'', band_count rt y m 801 900 d),
              (''901 - Infinity'', open_band_count rt y m 901 d)]
         \<and> sum_list (map snd ranges)
             = length (filter (\<lambda>t. in_month rt y m t \<and> banded (price t)) (collection d))
         \<and> ((\<forall>t \<in> set (collection d). price t \<in> \<int>) \<longrightarrow>
              sum_list (map snd ranges)
                = length (filter (\<lambda>t. in_month rt y m t \<and> 0 \<le> price t) (collection d)))"
proof -
  let ?ranges =
    "[(''0 - 100'', band_count rt y m 0 100 d),
      (''101 - 200'', band_count rt y m 101 200 d),
      (''201 - 300'', band_count rt y m 201 300 d),
      (''301 - 400'', band_count rt y m 301 400 d),
      (''401 - 500'', band_count rt y m 401 500 d),
      (''501 - 600'', band_count rt y m 501 600 d),
      (''601 - 700'', band_count rt y m 601 700 d),
      (''701 - 800'', band_count rt y m 701 800 d),
      (''801 - 900'', band_count rt y m 801 900 d),
      (''901 - Infinity'', open_band_count rt y m 901 d)]"
  have s: "new_date rt (current_year rt) (m - 1) 1 = Some (first_instant rt y m)"
    using assms by (simp add: new_date_start)
  have e: "new_date rt (current_year rt) m 1 = Some (next_first_instant rt y m)"
    using assms by (simp add: new_date_end)
  have labels: "map range_label priceRanges = map fst ?ranges"
    by (simp add: range_labels)
  have counts:
    "map (\<lambda>r. length (filter (\<lambda>t. in_month rt y m t \<and> in_range r t) (collection d))) priceRanges
       = map snd ?ranges"
    by (simp add: priceRanges_def in_range_def band_count_def open_band_count_def)
  have "map (\<lambda>r. (range_label r,
                   length (filter (\<lambda>t. in_month rt y m t \<and> in_range r t) (collection d))))
          priceRanges
        = zip (map range_label priceRanges)
            (map (\<lambda>r. length (filter (\<lambda>t. in_month rt y m t \<and> in_range r t) (collection d)))
               priceRanges)"
    by (rule map_pair_zip)
  also have "\<dots> = zip (map fst ?ranges) (map snd ?ranges)"
    by (simp only: labels counts)
  also have "\<dots> = ?ranges"
    by (simp only: zip_map_fst_snd)
  finally have body:
    "map (\<lambda>r. (range_label r,
                length (filter (\<lambda>t. in_month rt y m t \<and> in_range r t) (collection d))))
       priceRanges = ?ranges" .
  have resp: "fst (get_price_range rt month d) = Ok_ranges ?ranges"
    using assms(1-3)
    by (simp add: get_price_range_def s e in_window_month body Let_def)
  have total: "sum_list (map snd ?ranges)
                 = length (filter (\<lambda>t. in_month rt y m t \<and> banded (price t)) (collection d))"
    using band_sum_list [of "in_month rt y m" "collection d"]
    by (simp add: band_count_def open_band_count_def)
  have whole: "length (filter (\<lambda>t. in_month rt y m t \<and> banded (price t)) (collection d))
                 = length (filter (\<lambda>t. in_month rt y m t \<and> 0 \<le> price t) (collection d))"
    if "\<forall>t \<in> set (collection d). price t \<in> \<int>"
  proof -
    have "filter (\<lambda>t. in_month rt y m t \<and> banded (price t)) (collection d)
            = filter (\<lambda>t. in_month rt y m t \<and> 0 \<le> price t) (collection d)"
      using that by (intro filter_cong) (auto simp: banded_whole)
    then show ?thesis by simp
  qed
  have whole_total:
    "(\<forall>t \<in> set (collection d). price t \<in> \<int>) \<longrightarrow>
       sum_list (map snd ?ranges)
         = length (filter (\<lambda>t. in_month rt y m t \<and> 0 \<le> price t) (collection d))"
    using total whole by (simp only:) blast
  show ?thesis
    by (intro exI [of _ ?ranges] conjI) (rule resp refl total whole_total)+
qed


theorem price_range_bands_witness:
  "parseInt (param_text (Some ''5'')) = Some 5
   \<and> valid_time (first_instant utc_runtime 2024 5)
   \<and> valid_time (next_first_instant utc_runtime 2024 5)
   \<and> fst (get_price_range utc_runtime (Some ''5'') may_2024_whole)
     = Ok_ranges
         [(''0 - 100'', 1), (''101 - 200'', 1), (''201 - 300'', 0), (''301 - 400'', 0),
          (''401 - 500'', 0), (''501 - 600'', 0), (''601 - 700'', 0), (''701 - 800'', 0),
          (''801 - 900'', 0), (''901 - Infinity'', 1)]
   \<and> list_all (\<lambda>t. price t \<in> \<int>) (collection may_2024_whole)
   \<and> length (filter (\<lambda>t. in_month utc_runtime 2024 5 t \<and> 0 \<le> price t)
               (collection may_2024_whole)) = 3"
proof -
  have m: "parseInt (param_text (Some ''5'')) = Some 5"
    by (simp add: parseInt_def param_text_def char_eval)
  have v: "valid_time (first_instant utc_runtime 2024 5)"
    "valid_time (next_first_instant utc_runtime 2024 5)"
    by (simp_all add: date_eval)
  have year: "current_year utc_runtime = 2024"
    by (simp add: utc_runtime_def)
  have whole: "list_all (\<lambda>t. price t \<in> \<int>) (collection may_2024_whole)"
    by (simp add: may_2024_whole_def store_of_def doc_def)
  have counts:
    "band_count utc_runtime 2024 5 0 100 may_2024_whole = 1"
    "band_count utc_runtime 2024 5 101 200 may_2024_whole = 1"
    "band_count utc_runtime 2024 5 201 300 may_2024_whole = 0"
    "band_count utc_runtime 2024 5 301 400 may_2024_whole = 0"
    "band_count utc_runtime 2024 5 401 500 may_2024_whole = 0"
    "band_count utc_runtime 2024 5 501 600 may_2024_whole = 0"
    "band_count utc_runtime 2024 5 601 700 may_2024_whole = 0"
    "band_count utc_runtime 2024 5 701 800 may_2024_whole = 0"
    "band_count utc_runtime 2024 5 801 900 may_2024_whole = 0"
    "open_band_count utc_runtime 2024 5 901 may_2024_whole = 1"
    by (simp_all add: band_count_def open_band_count_def may_2024_whole_def store_of_def doc_def
          in_month_def date_eval)
  from price_range_bands [OF m _ _ year _ v, of may_2024_whole]
  obtain ranges where "fst (get_price_range utc_runtime (Some ''5'') may_2024_whole) = Ok_ranges ranges"
    and "ranges =
             [(''0 - 100'', band_count utc_runtime 2024 5 0 100 may_2024_whole),
              (''101 - 200'', band_count utc_runtime 2024 5 101 200 may_2024_whole),
              (''201 - 300'', band_count utc_runtime 2024 5 201 300 may_2024_whole),
              (''301 - 400'', band_count utc_runtime 2024 5 301 400 may_2024_whole),
              (''401 - 500'', band_count utc_runtime 2024 5 401 500 may_2024_whole),
              (''501 - 600'', band_count utc_runtime 2024 5 501 600 may_2024_whole),
              (''601 - 700'', band_count utc_runtime 2024 5 601 700 may_2024_whole),
              (''701 - 800'', band_count utc_runtime 2024 5 701 800 may_2024_whole),
              (''801 - 900'', band_count utc_runtime 2024 5 801 900 may_2024_whole),
              (''901 - Infinity'', open_band_count utc_runtime 2024 5 901 may_2024_whole)]"
    and "(\<forall>t \<in> set (collection may_2024_whole). price t \<in> \<int>) \<longrightarrow>
              sum_list (map snd ranges)
                = length (filter (\<lambda>t. in_month utc_runtime 2024 5 t \<and> 0 \<le> price t)
                            (collection may_2024_whole))"
    by auto
  with m v whole show ?thesis
    by (simp add: counts list_all_iff)
qed

text \<open>
  C1 as stated fails on a price between two bands: a document of May 2024 with the price
  100.5 is counted in no band, so the counts sum to 0, and one document of the month has a
  price of 0 or more.
\<close>

theorem price_range_gap:
  "fst (get_price_range utc_runtime (Some ''5'') may_2024)
     = Ok_ranges
         [(''0 - 100'', 0), (''101 - 200'', 0), (''201 - 300'', 0), (''301 - 400'', 0),
          (''401 - 500'', 0), (''501 - 600'', 0), (''601 - 700'', 0), (''701 - 800'', 0),
          (''801 - 900'', 0), (''901 - Infinity'', 0)]
   \<and> open_band_count utc_runtime 2024 5 0 may_2024 = 1"
  by (simp add: get_price_range_def parseInt_def param_text_def char_eval may_2024_def
        store_of_def doc_def new_date_def make_day_def day_from_year_def in_leap_year_def
        month_start_day_def ms_per_day_def utc_runtime_def time_clip_def in_window_def
        in_month_def first_instant_def next_first_instant_def range_label_def show_int_def
        priceRanges_def in_range_def open_band_count_def)

section \<open>GET /category-stats: one entry for each category\<close>

lemma bump_keys: "fst ` set (bump c acc) = insert c (fst ` set acc)"
proof (induction acc)
  case Nil
  show ?case by simp
next
  case (Cons kn acc)
  obtain k n where kn: "kn = (k, n)" by (cases kn)
  show ?case
  proof (cases "k = c")
    case True
    with kn show ?thesis by simp
  next
    case False
    with kn Cons show ?thesis by (simp add: insert_commute)
  qed
qed

lemma bump_distinct: "distinct (map fst acc) \<Longrightarrow> distinct (map fst (bump c acc))"
proof (induction acc)
  case Nil
  then show ?case by simp
next
  case (Cons kn acc)
  obtain k n where kn: "kn = (k, n)" by (cases kn)
  from Cons kn show ?case
    using bump_keys [of c acc] by auto
qed

lemma bump_sum: "sum_list (map snd (bump c acc)) = Suc (sum_list (map snd acc))"
  by (induction acc) auto

lemma bump_lookup:
  "map_of (bump c acc) k =
     (if k = c then Some (case map_of acc c of None \<Rightarrow> 1 | Some n \<Rightarrow> n + 1) else map_of acc k)"
  by (induction acc) auto

lemma group_fold_keys:
  "fst ` set (foldl (\<lambda>acc t. bump (category t) acc) acc ts)
     = fst ` set acc \<union> category ` set ts"
  by (induction ts arbitrary: acc) (simp_all add: bump_keys)

lemma group_fold_distinct:
  "distinct (map fst acc) \<Longrightarrow> distinct (map fst (foldl (\<lambda>acc t. bump (category t) acc) acc ts))"
  by (induction ts arbitrary: acc) (auto simp: bump_distinct)

lemma group_fold_sum:
  "sum_list (map snd (foldl (\<lambda>acc t. bump (category t) acc) acc ts))
     = sum_list (map snd acc) + length ts"
  by (induction ts arbitrary: acc) (auto simp: bump_sum)

lemma group_fold_lookup:
  "map_of (foldl (\<lambda>acc t. bump (category t) acc) acc ts) c =
     (case map_of acc c of
        None \<Rightarrow> if category_count c ts = 0 then None else Some (category_count c ts)
      | Some k \<Rightarrow> Some (k + category_count c ts))"
  by (induction ts arbitrary: acc)
     (auto simp: bump_lookup category_count_def split: option.splits)

lemma group_by_category_entries:
  assumes "(c, n) \<in> set (group_by_category ts)"
  shows "n = length (filter (\<lambda>t. category t = c) ts)"
proof -
  have "distinct (map fst (group_by_category ts))"
    unfolding group_by_category_def by (rule group_fold_distinct) simp
  with assms have "map_of (group_by_category ts) c = Some n"
    by simp
  then show ?thesis
    unfolding group_by_category_def
    by (simp add: group_fold_lookup category_count_def split: if_splits)
qed

text \<open>
  C7. For a month from 1 to 12 (the year of the clock being outside 0 to 99 and the bounds
  of the month valid Dates) \<^verbatim>\<open>/category-stats\<close> returns exactly one entry for each
  category that occurs among the documents of the month, the empty string included, each
  with the number of documents of the month of that category, and the counts sum to the
  number of documents of the month.
\<close>

theorem category_stats_groups:
  assumes "parseInt (param_text month) = Some m" and "1 \<le> m" and "m \<le> 12"
    and "current_year rt = y" and "y < 0 \<or> 99 < y"
    and "valid_time (first_instant rt y m)" and "valid_time (next_first_instant rt y m)"
  shows "\<exists>groups.
           fst (get_category_stats rt month d) = Ok_categories groups
         \<and> distinct (map fst groups)
         \<and> fst ` set groups = category ` {t \<in> set (collection d). in_month rt y m t}
         \<and> (\<forall>(c, n) \<in> set groups.
               n = length (filter (\<lambda>t. in_month rt y m t \<and> category t = c) (collection d)))
         \<and> sum_list (map snd groups) = length (filter (in_month rt y m) (collection d))"
proof -
  let ?matched = "filter (in_month rt y m) (collection d)"
  let ?groups = "group_by_category ?matched"
  have s: "new_date rt (current_year rt) (m - 1) 1 = Some (first_instant rt y m)"
    using assms by (simp add: new_date_start)
  have e: "new_date rt (current_year rt) m 1 = Some (next_first_instant rt y m)"
    using assms by (simp add: new_date_end)
  have resp: "fst (get_category_stats rt month d) = Ok_categories ?groups"
    using assms(1-3)
    by (simp add: get_category_stats_def s e wire_date_def in_window_month Let_def)
  have dist: "distinct (map fst ?groups)"
    unfolding group_by_category_def by (rule group_fold_distinct) simp
  have keys: "fst ` set ?groups = category ` {t \<in> set (collection d). in_month rt y m t}"
    using group_fold_keys [of "[]" ?matched] unfolding group_by_category_def by simp
  have entries:
    "\<forall>(c, n) \<in> set ?groups.
        n = length (filter (\<lambda>t. in_month rt y m t \<and> category t = c) (collection d))"
    using group_by_category_entries [of _ _ ?matched] by (auto simp: conj_commute)
  have total: "sum_list (map snd ?groups) = length ?matched"
    unfolding group_by_category_def by (simp add: group_fold_sum)
  show ?thesis
    by (intro exI [of _ ?groups] conjI) (rule resp dist keys entries total)+
qed

theorem category_stats_groups_witness:
  "parseInt (param_text (Some ''5'')) = Some 5
   \<and> valid_time (first_instant utc_runtime 2024 5)
   \<and> valid_time (next_first_instant utc_runtime 2024 5)
   \<and> fst (get_category_stats utc_runtime (Some ''5'') may_2024_mixed)
     = Ok_categories [(''home'', 2), ([], 1)]
   \<and> length (filter (in_month utc_runtime 2024 5) (collection may_2024_mixed)) = 3"
proof -
  have m: "parseInt (param_text (Some ''5'')) = Some 5"
    by (simp add: parseInt_def param_text_def char_eval)
  have v: "valid_time (first_instant utc_runtime 2024 5)"
    "valid_time (next_first_instant utc_runtime 2024 5)"
    by (simp_all add: date_eval)
  have year: "current_year utc_runtime = 2024"
    by (simp add: utc_runtime_def)
  have matched: "filter (in_month utc_runtime 2024 5) (collection may_2024_mixed)
      = [doc ''lamp'' ''home'' 100 1715731200000 5, doc ''pen'' [] 2 1715731200000 5,
         doc ''sofa'' ''home'' 1200 1715731200000 5]"
    by (simp add: may_2024_mixed_def store_of_def doc_def in_month_def date_eval)
  from category_stats_groups [OF m _ _ year _ v, of may_2024_mixed]
  obtain groups where resp: "fst (get_category_stats utc_runtime (Some ''5'') may_2024_mixed)
        = Ok_categories groups"
    and total: "sum_list (map snd groups)
        = length (filter (in_month utc_runtime 2024 5) (collection may_2024_mixed))"
    by auto
  have s: "new_date utc_runtime 2024 4 1 = Some (first_instant utc_runtime 2024 5)"
    using new_date_start [of 5 2024 utc_runtime] v by simp
  have e: "new_date utc_runtime 2024 5 1 = Some (next_first_instant utc_runtime 2024 5)"
    using new_date_end [of 5 2024 utc_runtime] v by simp
  have groups: "fst (get_category_stats utc_runtime (Some ''5'') may_2024_mixed)
          = Ok_categories [(''home'', 2), ([], 1)]"
    by (simp add: get_category_stats_def m year s e wire_date_def
          in_window_month matched group_by_category_def doc_def)
  with resp have "groups = [(''home'', 2), ([], 1)]"
    by simp
  with total have "length (filter (in_month utc_runtime 2024 5) (collection may_2024_mixed)) = 3"
    by simp
  with m v groups show ?thesis
    by simp
qed

section \<open>GET /transactions: paging\<close>




section \<open>GET /transactions: the search filter\<close>












section \<open>GET /initialize: what is stored\<close>

lemma cast_optional_absent: "cast_optional c None = Some r \<Longrightarrow> r = None"
  by (simp add: cast_optional_def)

lemma cast_optional_string:
  "cast_optional (cast_string rt) (Some (JStr x)) = Some r \<Longrightarrow> r = Some x"
  by (simp add: cast_optional_def cast_string_def)

lemma cast_optional_number:
  "cast_optional (cast_number rt) (Some (JNum x)) = Some r \<Longrightarrow> r = Some x"
  by (simp add: cast_optional_def cast_number_def)

lemma cast_id: "cast_optional (cast_string rt) v = Some r \<Longrightarrow> id_of v r"
  unfolding id_of_def using cast_optional_absent cast_optional_string by blast

lemma cast_text: "cast_string rt (js_or v (JStr [])) = Some s \<Longrightarrow> text_of v s"
  by (auto simp: text_of_def js_or_def cast_string_def split: if_splits)

lemma cast_price_absent: "cast_number rt (js_or None (JNum 0)) = Some x \<Longrightarrow> x = 0"
  by (simp add: js_or_def cast_number_def)

lemma cast_price_number: "cast_number rt (js_or (Some (JNum y)) (JNum 0)) = Some x \<Longrightarrow> x = y"
  by (auto simp: js_or_def cast_number_def split: if_splits)

lemma cast_txn_fields:
  assumes "cast_txn rt p = Some t"
  shows "cast_optional (cast_string rt) (raw_transactionId p) = Some (transactionId t)"
    and "cast_optional (cast_string rt) (raw_productId p) = Some (productId t)"
    and "cast_optional (cast_string rt) (raw_userId p) = Some (userId t)"
    and "cast_optional (cast_number rt) (raw_amount p) = Some (amount t)"
    and "cast_string rt (raw_title p) = Some (title t)"
    and "cast_string rt (raw_description p) = Some (description t)"
    and "cast_number rt (raw_price p) = Some (price t)"
    and "cast_string rt (raw_category p) = Some (category t)"
    and "date t = raw_date p" and "sold t = None"
  using assms unfolding cast_txn_def by (auto split: option.splits)


lemma map_item_normalized:
  assumes "map_item rt item = Some p" and "cast_txn rt p = Some t"
  shows "normalized rt item t"
proof -
  from assms(1) have p:
    "raw_transactionId p = property item ''transaction_id''"
    "raw_productId p = property item ''product_id''"
    "raw_userId p = property item ''user_id''"
    "raw_amount p = property item ''amount''"
    "raw_date p = parseDate rt (property item ''date'')"
    "raw_title p = js_or (property item ''title'') (JStr [])"
    "raw_description p = js_or (property item ''description'') (JStr [])"
    "raw_price p = js_or (property item ''price'') (JNum 0)"
    "raw_category p = js_or (property item ''category'') (JStr [])"
    by (auto simp: map_item_def split: if_splits)
  note f = cast_txn_fields [OF assms(2), unfolded p]
  show ?thesis
    unfolding normalized_def
    using f(9,10) cast_id [OF f(1)] cast_id [OF f(2)] cast_id [OF f(3)]
      cast_optional_absent [of "cast_number rt" "amount t"] cast_optional_number [of rt _ "amount t"] f(4)
      cast_text [OF f(5)] cast_text [OF f(6)] cast_text [OF f(8)]
      cast_price_absent [of rt "price t"] cast_price_number [of rt _ "price t"] f(7)
    by (simp add: p(5)) metis
qed

lemma map_item_date: "map_item rt item = Some p \<Longrightarrow> (raw_date p \<noteq> None) = parseable rt item"
  by (auto simp: map_item_def parseable_def split: if_splits)

lemma ingest_normalized:
  "those (map (map_item rt) items) = Some mapped \<Longrightarrow>
   those (map (cast_txn rt) (filter (\<lambda>t. raw_date t \<noteq> None) mapped)) = Some ts \<Longrightarrow>
   list_all2 (normalized rt) (filter (parseable rt) items) ts"
proof (induction items arbitrary: mapped ts)
  case Nil
  then show ?case by simp
next
  case (Cons item items)
  from Cons.prems(1) obtain p ps where p: "map_item rt item = Some p"
    and ps: "those (map (map_item rt) items) = Some ps" and mapped: "mapped = p # ps"
    by (auto split: option.splits)
  show ?case
  proof (cases "parseable rt item")
    case True
    with map_item_date [OF p] have "raw_date p \<noteq> None" by blast
    with Cons.prems(2) mapped obtain t ts' where t: "cast_txn rt p = Some t"
      and ts': "those (map (cast_txn rt) (filter (\<lambda>t. raw_date t \<noteq> None) ps)) = Some ts'"
      and ts: "ts = t # ts'"
      by (auto split: option.splits)
    from Cons.IH [OF ps ts'] map_item_normalized [OF p t] True ts show ?thesis
      by simp
  next
    case False
    with map_item_date [OF p] have "raw_date p = None" by blast
    with Cons.prems(2) mapped
    have "those (map (cast_txn rt) (filter (\<lambda>t. raw_date t \<noteq> None) ps)) = Some ts"
      by simp
    from Cons.IH [OF ps this] False show ?thesis
      by simp
  qed
qed

lemma list_all2_right:
  "list_all2 R xs ys \<Longrightarrow> (\<And>x y. x \<in> set xs \<Longrightarrow> R x y \<Longrightarrow> P y) \<Longrightarrow> \<forall>y \<in> set ys. P y"
  by (induction rule: list_all2_induct) auto

lemma initialize_success:
  assumes "get_initialize rt (Fetched (JArr items)) d = (Ok_message msg, d')"
  shows "\<exists>mapped ts. those (map (map_item rt) items) = Some mapped
           \<and> those (map (cast_txn rt) (filter (\<lambda>t. raw_date t \<noteq> None) mapped)) = Some ts
           \<and> collection d' = ts"
  using assms
  by (auto simp: get_initialize_def insertMany_def deleteMany_def log_call_def Let_def
           split: option.splits)

lemma initialize_normalized:
  assumes "get_initialize rt (Fetched (JArr items)) d = (Ok_message msg, d')"
  shows "list_all2 (normalized rt) (filter (parseable rt) items) (collection d')"
  using initialize_success [OF assms] by (auto intro: ingest_normalized)





section \<open>The sold field\<close>

lemma initialize_keeps_sold_absent:
  assumes "\<forall>t \<in> set (collection d). sold t = None"
  shows "\<forall>t \<in> set (collection (snd (get_initialize rt upstream d))). sold t = None"
proof (cases upstream)
  case Fetch_failed
  with assms show ?thesis by (simp add: get_initialize_def)
next
  case (Fetched data)
  show ?thesis
  proof (cases "get_initialize rt (Fetched data) d")
    case (Pair r d')
    show ?thesis
    proof (cases data)
      case (JArr items)
      show ?thesis
      proof (cases r)
        case (Ok_message msg)
        have "list_all2 (normalized rt) (filter (parseable rt) items) (collection d')"
          using Pair [unfolded JArr Ok_message] by (rule initialize_normalized)
        then have "\<forall>t \<in> set (collection d'). sold t = None"
          by (rule list_all2_right) (simp add: normalized_def)
        with Fetched Pair show ?thesis by simp
      next
        case (Server_error msg)
        with Pair JArr have "collection d' = []"
          by (auto simp: get_initialize_def insertMany_def deleteMany_def log_call_def Let_def
                   split: option.splits)
        with Fetched Pair show ?thesis by simp
      qed (use Pair JArr in \<open>auto simp: get_initialize_def insertMany_def Let_def
                                   split: option.splits\<close>)
    qed (use assms Fetched in \<open>simp_all add: get_initialize_def\<close>)
  qed
qed

lemma populated_sold_absent: "populated rt d \<Longrightarrow> \<forall>t \<in> set (collection d). sold t = None"
  by (induction rule: populated.induct) (simp_all add: initialize_keeps_sold_absent)

text \<open>
  C10. No document written by \<^verbatim>\<open>/initialize\<close> carries a \<^verbatim>\<open>sold\<close> field, so over a store
  populated by \<^verbatim>\<open>/initialize\<close> alone every statistics body reports no sold and no unsold
  item, whatever the month and the year.
\<close>

theorem ingested_statistics_no_sold:
  assumes "populated rt d"
  shows "(\<forall>t \<in> set (collection d). sold t = None)
       \<and> (\<forall>body. fst (get_statistics rt q d) = Ok_statistics body \<longrightarrow>
             totalSoldItems body = 0 \<and> totalNotSoldItems body = 0)"
proof -
  have absent: "\<forall>t \<in> set (collection d). sold t = None"
    using assms by (rule populated_sold_absent)
  then have none: "filter (\<lambda>t. W t \<and> sold t = Some b) (collection d) = []" for b W
    by (simp add: filter_empty_conv)
  have "totalSoldItems body = 0 \<and> totalNotSoldItems body = 0"
    if "fst (get_statistics rt q d) = Ok_statistics body" for body
    using that
    by (auto simp: get_statistics_def none first_or_zero_count Let_def
             split: option.splits if_splits)
  with absent show ?thesis by blast
qed

theorem ingested_statistics_no_sold_witness:
  "populated utc_runtime
     (snd (get_initialize utc_runtime (Fetched (JArr sample_items)) (store_of [])))
   \<and> fst (get_statistics utc_runtime \<lparr>q_month = Some ''5'', q_year = Some ''2024''\<rparr>
            (snd (get_initialize utc_runtime (Fetched (JArr sample_items)) (store_of []))))
       = Ok_statistics \<lparr>totalSaleAmount = 12, totalSoldItems = 0, totalNotSoldItems = 0\<rparr>"
proof -
  let ?d = "snd (get_initialize utc_runtime (Fetched (JArr sample_items)) (store_of []))"
  have "populated utc_runtime (store_of [])"
    by (rule populated.fresh) (simp add: store_of_def)
  then have pop: "populated utc_runtime ?d"
    by (rule populated.ingest)
  have d: "?d = \<lparr> collection = [sample_stored], calls = [Delete_many, Insert_many] \<rparr>"
    by (simp add: get_initialize_def sample_items_def sample_stored_def store_of_def
          deleteMany_def insertMany_def log_call_def map_item_def parseDate_def utc_runtime_def
          js_or_def cast_txn_def cast_optional_def cast_string_def cast_number_def)
  have "\<exists>x. fst (get_statistics utc_runtime \<lparr>q_month = Some ''5'', q_year = Some ''2024''\<rparr> ?d)
          = Ok_statistics x \<and> totalSaleAmount x = 12"
    unfolding d
    by (simp add: get_statistics_def parseInt_def param_text_def char_eval sample_stored_def
          new_date_def make_day_def day_from_year_def in_leap_year_def month_start_day_def
          ms_per_day_def utc_runtime_def time_clip_def wire_date_def in_window_def
          group_total_def first_or_zero_def amount_value_def)
  then obtain x where x: "fst (get_statistics utc_runtime
      \<lparr>q_month = Some ''5'', q_year = Some ''2024''\<rparr> ?d) = Ok_statistics x"
    and amount: "totalSaleAmount x = 12"
    by blast
  from ingested_statistics_no_sold [OF pop, of "\<lparr>q_month = Some ''5'', q_year = Some ''2024''\<rparr>"] x
  have "totalSoldItems x = 0 \<and> totalNotSoldItems x = 0"
    by blast
  with amount have "x = \<lparr>totalSaleAmount = 12, totalSoldItems = 0, totalNotSoldItems = 0\<rparr>"
    by (cases x) simp
  with pop x show ?thesis
    by simp
qed

end
